theory Spec2Isabelle
  imports Main "HOL-Library.AList" "HOL-Library.Multiset"
begin

section \<open>JavaScript values\<close>

text \<open>
  School records and user profiles reach \<^verbatim>\<open>calculateScore\<close> as data parsed from JSON (the
  database snapshot and the request body), so a value is \<^verbatim>\<open>undefined\<close> (a field that is
  not there), \<^verbatim>\<open>null\<close>, a boolean, a number, a string, an array or a plain object whose
  properties are data. Numbers are modelled by the integers and strings by lists of
  8-bit characters: the model covers integer-valued numbers and ASCII text.
\<close>

datatype jsval =
    JUndefined
  | JNull
  | JBool bool
  | JNum int
  | JStr string
  | JArr "jsval list"
  | JObj "(string \<times> jsval) list"

text \<open>An object is the list of its own properties; the first binding of a key is the property.\<close>

type_synonym obj = "(string \<times> jsval) list"

text \<open>Every exception that \<^verbatim>\<open>calculateScore\<close> can raise is a \<^verbatim>\<open>TypeError\<close>.\<close>

datatype error = TypeError

text \<open>\<^verbatim>\<open>x.k\<close>: reading a property that is not there gives \<^verbatim>\<open>undefined\<close>.\<close>

definition get_field :: "obj \<Rightarrow> string \<Rightarrow> jsval" where
  "get_field x k = (case map_of x k of None \<Rightarrow> JUndefined | Some v \<Rightarrow> v)"

text \<open>\<^verbatim>\<open>{...x, k: v}\<close>: the property is overwritten in place, or added at the end.\<close>

definition set_field :: "obj \<Rightarrow> string \<Rightarrow> jsval \<Rightarrow> obj" where
  "set_field x k v = AList.update k v x"

text \<open>Truthiness (\<^verbatim>\<open>ToBoolean\<close>): \<^verbatim>\<open>undefined\<close>, \<^verbatim>\<open>null\<close>, \<^verbatim>\<open>false\<close>, \<^verbatim>\<open>0\<close> and \<^verbatim>\<open>""\<close> are falsy.\<close>

fun truthy :: "jsval \<Rightarrow> bool" where
  "truthy JUndefined = False"
| "truthy JNull = False"
| "truthy (JBool b) = b"
| "truthy (JNum n) = (n \<noteq> 0)"
| "truthy (JStr s) = (s \<noteq> [])"
| "truthy (JArr xs) = True"
| "truthy (JObj kvs) = True"

subsection \<open>\<^verbatim>\<open>String(v)\<close>\<close>

text \<open>
  The decimal digits of a natural number, and the string of an integer: an optional
  minus sign and the digits, which is what JavaScript prints for an integer of magnitude
  below \<open>10\<^sup>2\<^sup>1\<close>.
\<close>

fun digits :: "nat \<Rightarrow> string" where
  "digits n =
     (if n < 10 then [''0123456789'' ! n]
      else digits (n div 10) @ [''0123456789'' ! (n mod 10)])"

declare digits.simps [simp del]

definition NumberToString :: "int \<Rightarrow> string" where
  "NumberToString n = (if n < 0 then CHR ''-'' # digits (nat (- n)) else digits (nat n))"

fun join_comma :: "string list \<Rightarrow> string" where
  "join_comma [] = []"
| "join_comma [s] = s"
| "join_comma (s # t # ss) = s @ CHR '','' # join_comma (t # ss)"

text \<open>
  \<^verbatim>\<open>ToString\<close>. An array is joined with commas, \<^verbatim>\<open>null\<close> and \<^verbatim>\<open>undefined\<close> elements giving
  the empty string. A plain object is converted by the inherited \<^verbatim>\<open>toString\<close>, which gives
  \<^verbatim>\<open>"[object Object]"\<close>; when the object has an own property \<^verbatim>\<open>toString\<close> (a data value,
  so not callable) the inherited method is shadowed, \<^verbatim>\<open>valueOf\<close> gives no primitive, and
  the conversion raises a \<^verbatim>\<open>TypeError\<close>.
\<close>

fun ToString :: "jsval \<Rightarrow> error + string"
  and element_strings :: "jsval list \<Rightarrow> error + string list" where
  "ToString JUndefined = Inr ''undefined''"
| "ToString JNull = Inr ''null''"
| "ToString (JBool b) = Inr (if b then ''true'' else ''false'')"
| "ToString (JNum n) = Inr (NumberToString n)"
| "ToString (JStr s) = Inr s"
| "ToString (JArr xs) =
     (case element_strings xs of Inl e \<Rightarrow> Inl e | Inr ss \<Rightarrow> Inr (join_comma ss))"
| "ToString (JObj kvs) =
     (if map_of kvs ''toString'' \<noteq> None then Inl TypeError else Inr ''[object Object]'')"
| "element_strings [] = Inr []"
| "element_strings (x # xs) =
     (case (if x = JUndefined \<or> x = JNull then Inr [] else ToString x) of
        Inl e \<Rightarrow> Inl e
      | Inr s \<Rightarrow> (case element_strings xs of Inl e \<Rightarrow> Inl e | Inr ss \<Rightarrow> Inr (s # ss)))"

text \<open>\<^verbatim>\<open>xs.map(String)\<close>: the elements are converted from left to right.\<close>

fun map_String :: "jsval list \<Rightarrow> error + string list" where
  "map_String [] = Inr []"
| "map_String (x # xs) =
     (case ToString x of
        Inl e \<Rightarrow> Inl e
      | Inr s \<Rightarrow> (case map_String xs of Inl e \<Rightarrow> Inl e | Inr ss \<Rightarrow> Inr (s # ss)))"

subsection \<open>\<^verbatim>\<open>toLowerCase\<close> and \<^verbatim>\<open>includes\<close> on strings\<close>

definition lower_char :: "char \<Rightarrow> char" where
  "lower_char c =
     (case map_of (zip ''ABCDEFGHIJKLMNOPQRSTUVWXYZ'' ''abcdefghijklmnopqrstuvwxyz'') c of
        None \<Rightarrow> c
      | Some d \<Rightarrow> d)"

definition toLowerCase :: "string \<Rightarrow> string" where
  "toLowerCase s = map lower_char s"

text \<open>\<^verbatim>\<open>hay.includes(needle)\<close>: \<^verbatim>\<open>needle\<close> occurs in \<^verbatim>\<open>hay\<close> as a contiguous substring.\<close>

fun includes_str :: "string \<Rightarrow> string \<Rightarrow> bool" where
  "includes_str [] needle = (needle = [])"
| "includes_str (h # hs) needle =
     (take (length needle) (h # hs) = needle \<or> includes_str hs needle)"

subsection \<open>Numeric comparison\<close>

definition is_ws :: "char \<Rightarrow> bool" where
  "is_ws c = (c \<in> set [CHR 0x09, CHR 0x0A, CHR 0x0B, CHR 0x0C, CHR 0x0D, CHR 0x20])"

definition trim :: "string \<Rightarrow> string" where
  "trim s = rev (dropWhile is_ws (rev (dropWhile is_ws s)))"

definition digit_val :: "char \<Rightarrow> nat option" where
  "digit_val c = map_of (zip ''0123456789'' [0, 1, 2, 3, 4, 5, 6, 7, 8, 9]) c"

fun digits_val :: "nat \<Rightarrow> string \<Rightarrow> nat option" where
  "digits_val acc [] = Some acc"
| "digits_val acc (c # cs) =
     (case digit_val c of None \<Rightarrow> None | Some d \<Rightarrow> digits_val (10 * acc + d) cs)"

text \<open>
  \<^verbatim>\<open>ToNumber\<close> of a string, on the integer fragment: surrounding white space is dropped,
  the empty string is \<^verbatim>\<open>0\<close>, an optionally signed run of decimal digits is its value, and
  text that is no number is \<^verbatim>\<open>NaN\<close> (\<open>None\<close>). The other notations of JavaScript (a
  fraction, an exponent, a radix prefix, \<^verbatim>\<open>Infinity\<close>) denote numbers outside the fragment
  and are not told apart from such text.
\<close>

definition StringToNumber :: "string \<Rightarrow> int option" where
  "StringToNumber s =
     (case trim s of
        [] \<Rightarrow> Some 0
      | c # cs \<Rightarrow>
          if c = CHR ''-'' then (if cs = [] then None else map_option (\<lambda>n. - int n) (digits_val 0 cs))
          else if c = CHR ''+'' then (if cs = [] then None else map_option int (digits_val 0 cs))
          else map_option int (digits_val 0 (c # cs)))"

text \<open>
  \<^verbatim>\<open>ToNumber\<close>; \<open>None\<close> is \<^verbatim>\<open>NaN\<close>. An array or object is first converted to a primitive,
  which is its string (\<^verbatim>\<open>valueOf\<close> gives the object back), and may raise as \<open>ToString\<close> does.
\<close>

fun ToNumber :: "jsval \<Rightarrow> error + int option" where
  "ToNumber JUndefined = Inr None"
| "ToNumber JNull = Inr (Some 0)"
| "ToNumber (JBool b) = Inr (Some (if b then 1 else 0))"
| "ToNumber (JNum n) = Inr (Some n)"
| "ToNumber (JStr s) = Inr (StringToNumber s)"
| "ToNumber v = (case ToString v of Inl e \<Rightarrow> Inl e | Inr s \<Rightarrow> Inr (StringToNumber s))"

text \<open>\<^verbatim>\<open>d <= v\<close> for a number \<^verbatim>\<open>d\<close>: false when \<^verbatim>\<open>v\<close> converts to \<^verbatim>\<open>NaN\<close>.\<close>

definition number_le :: "int \<Rightarrow> jsval \<Rightarrow> error + bool" where
  "number_le d v =
     (case ToNumber v of
        Inl e \<Rightarrow> Inl e
      | Inr None \<Rightarrow> Inr False
      | Inr (Some m) \<Rightarrow> Inr (d \<le> m))"

section \<open>The scoring function\<close>

text \<open>
  The condition of each \<^verbatim>\<open>if\<close> of \<^verbatim>\<open>calculateScore\<close>, evaluated as JavaScript evaluates it:
  \<open>Inr b\<close> when it evaluates to the boolean \<open>b\<close>, \<open>Inl TypeError\<close> when it raises.
\<close>

definition class_cond :: "obj \<Rightarrow> obj \<Rightarrow> error + bool" where
  "class_cond school user =
     (let classes = get_field school ''classes'' in
      if classes \<noteq> JUndefined \<and> classes \<noteq> JNull then
        (case classes of
           JArr xs \<Rightarrow>
             (case map_String xs of
                Inl e \<Rightarrow> Inl e
              | Inr strs \<Rightarrow>
                  (case ToString (get_field user ''class'') of
                     Inl e \<Rightarrow> Inl e
                   | Inr c \<Rightarrow> Inr (c \<in> set strs)))
         | _ \<Rightarrow>
             (case ToString classes of
                Inl e \<Rightarrow> Inl e
              | Inr a \<Rightarrow>
                  (case ToString (get_field user ''class'') of
                     Inl e \<Rightarrow> Inl e
                   | Inr c \<Rightarrow> Inr (a = c))))
      else Inr False)"

text \<open>
  \<^verbatim>\<open>school.location && user.location && school.location.toLowerCase().includes(...)\<close>:
  once both values are truthy, \<^verbatim>\<open>toLowerCase\<close> is called on each, and only a string has it.
\<close>

definition location_cond :: "obj \<Rightarrow> obj \<Rightarrow> error + bool" where
  "location_cond school user =
     (let sl = get_field school ''location''; ul = get_field user ''location'' in
      if truthy sl \<and> truthy ul then
        (case sl of
           JStr a \<Rightarrow>
             (case ul of
                JStr b \<Rightarrow> Inr (includes_str (toLowerCase a) (toLowerCase b))
              | _ \<Rightarrow> Inl TypeError)
         | _ \<Rightarrow> Inl TypeError)
      else Inr False)"

definition type_cond :: "obj \<Rightarrow> obj \<Rightarrow> error + bool" where
  "type_cond school user =
     (let st = get_field school ''type''; ut = get_field user ''type'' in
      if truthy st \<and> truthy ut then
        (case st of
           JStr a \<Rightarrow>
             (case ut of
                JStr b \<Rightarrow> Inr (toLowerCase a = toLowerCase b)
              | _ \<Rightarrow> Inl TypeError)
         | _ \<Rightarrow> Inl TypeError)
      else Inr False)"

text \<open>\<^verbatim>\<open>typeof school.distence === "number" && school.distence <= user.maxDistance\<close>\<close>

definition distance_cond :: "obj \<Rightarrow> obj \<Rightarrow> error + bool" where
  "distance_cond school user =
     (case get_field school ''distence'' of
        JNum d \<Rightarrow> number_le d (get_field user ''maxDistance'')
      | _ \<Rightarrow> Inr False)"

text \<open>Strict equality and a comparison of two numbers: this condition cannot raise.\<close>

definition fee_cond :: "obj \<Rightarrow> obj \<Rightarrow> bool" where
  "fee_cond school user =
     (case get_field school ''fee'' of
        JNum f \<Rightarrow>
          (get_field user ''fee'' = JStr ''free'' \<and> f = 0) \<or>
          (get_field user ''fee'' = JStr ''low'' \<and> f \<le> 500) \<or>
          (get_field user ''fee'' = JStr ''medium'' \<and> f \<le> 1500)
      | _ \<Rightarrow> False)"

definition midday_cond :: "obj \<Rightarrow> obj \<Rightarrow> bool" where
  "midday_cond school user =
     (truthy (get_field user ''middayMeal'') \<and> get_field school ''midday'' = JBool True)"

definition girl_cond :: "obj \<Rightarrow> obj \<Rightarrow> bool" where
  "girl_cond school user =
     (truthy (get_field user ''girlChild'') \<and> get_field school ''girlSupport'' = JBool True)"

text \<open>
  \<^verbatim>\<open>calculateScore(school, user)\<close>: the seven blocks in the order of the source, each adding
  its points to \<^verbatim>\<open>score\<close>; an exception in a condition ends the call.
\<close>

definition calculateScore :: "obj \<Rightarrow> obj \<Rightarrow> error + int" where
  "calculateScore school user =
     (let score = 0 in
      case class_cond school user of
        Inl e \<Rightarrow> Inl e
      | Inr c1 \<Rightarrow>
     (let score = (if c1 then score + 30 else score) in
      case location_cond school user of
        Inl e \<Rightarrow> Inl e
      | Inr c2 \<Rightarrow>
     (let score = (if c2 then score + 20 else score) in
      case type_cond school user of
        Inl e \<Rightarrow> Inl e
      | Inr c3 \<Rightarrow>
     (let score = (if c3 then score + 20 else score) in
      case distance_cond school user of
        Inl e \<Rightarrow> Inl e
      | Inr c4 \<Rightarrow>
     (let score = (if c4 then score + 20 else score);
          score = (if fee_cond school user then score + 20 else score);
          score = (if midday_cond school user then score + 5 else score);
          score = (if girl_cond school user then score + 5 else score)
      in Inr score)))))"

section \<open>The seven criteria\<close>

datatype criterion =
  ClassMatch | LocationMatch | TypeMatch | DistanceFit | FeeFit | MiddayMeal | GirlSupport

definition criteria :: "criterion list" where
  "criteria = [ClassMatch, LocationMatch, TypeMatch, DistanceFit, FeeFit, MiddayMeal, GirlSupport]"

fun condition :: "criterion \<Rightarrow> obj \<Rightarrow> obj \<Rightarrow> error + bool" where
  "condition ClassMatch school user = class_cond school user"
| "condition LocationMatch school user = location_cond school user"
| "condition TypeMatch school user = type_cond school user"
| "condition DistanceFit school user = distance_cond school user"
| "condition FeeFit school user = Inr (fee_cond school user)"
| "condition MiddayMeal school user = Inr (midday_cond school user)"
| "condition GirlSupport school user = Inr (girl_cond school user)"

text \<open>The points each block adds when its condition is true.\<close>

fun weight :: "criterion \<Rightarrow> int" where
  "weight ClassMatch = 30"
| "weight LocationMatch = 20"
| "weight TypeMatch = 20"
| "weight DistanceFit = 20"
| "weight FeeFit = 20"
| "weight MiddayMeal = 5"
| "weight GirlSupport = 5"

definition points :: "criterion \<Rightarrow> obj \<Rightarrow> obj \<Rightarrow> int" where
  "points c school user = (if condition c school user = Inr True then weight c else 0)"

section \<open>The recommendation route\<close>

text \<open>
  \<^verbatim>\<open>schools.map((s) => ({ ...s, score: calculateScore(s, user) }))\<close>: every school is
  scored, in order; an exception in one call ends the request (the route answers 500).
\<close>

fun score_all :: "obj list \<Rightarrow> obj \<Rightarrow> error + obj list" where
  "score_all [] user = Inr []"
| "score_all (s # ss) user =
     (case calculateScore s user of
        Inl e \<Rightarrow> Inl e
      | Inr n \<Rightarrow>
          (case score_all ss user of
             Inl e \<Rightarrow> Inl e
           | Inr rs \<Rightarrow> Inr (set_field s ''score'' (JNum n) # rs)))"

text \<open>
  \<^verbatim>\<open>a.score\<close> as a number. The route reads it only from the objects it has just built,
  where it is the number that \<^verbatim>\<open>calculateScore\<close> returned.
\<close>

definition score_of :: "obj \<Rightarrow> int" where
  "score_of a = (case get_field a ''score'' of JNum n \<Rightarrow> n | _ \<Rightarrow> 0)"

text \<open>
  \<^verbatim>\<open>.filter((s) => s.score >= 30).sort((a, b) => b.score - a.score)\<close>; the sort is the
  stable insertion sort of the library, on the negated score.
\<close>

definition recommend :: "obj list \<Rightarrow> obj \<Rightarrow> error + obj list" where
  "recommend schools user =
     (case score_all schools user of
        Inl e \<Rightarrow> Inl e
      | Inr scored \<Rightarrow>
          Inr (sort_key (\<lambda>a. - score_of a) (filter (\<lambda>a. 30 \<le> score_of a) scored)))"

section \<open>The fee rule in the words of the specification\<close>

text \<open>
  The bound that a user's fee category puts on a school's fee: \<^verbatim>\<open>fee == 0\<close> for
  \<^verbatim>\<open>"free"\<close>, \<^verbatim>\<open>fee <= 500\<close> for \<^verbatim>\<open>"low"\<close>, \<^verbatim>\<open>fee <= 1500\<close> for \<^verbatim>\<open>"medium"\<close>, and no
  category otherwise.
\<close>

definition fee_bound :: "jsval \<Rightarrow> int \<Rightarrow> bool" where
  "fee_bound category f =
     (if category = JStr ''free'' then f = 0
      else if category = JStr ''low'' then f \<le> 500
      else if category = JStr ''medium'' then f \<le> 1500
      else False)"

definition fee_fit_spec :: "obj \<Rightarrow> obj \<Rightarrow> bool" where
  "fee_fit_spec school user =
     (case get_field school ''fee'' of
        JNum f \<Rightarrow> fee_bound (get_field user ''fee'') f
      | _ \<Rightarrow> False)"

section \<open>The examples of the specification\<close>

definition example1_school :: obj where
  "example1_school =
     [(''classes'', JStr ''10''), (''location'', JStr ''Delhi''), (''type'', JStr ''Public''),
      (''distence'', JNum 5), (''fee'', JNum 0), (''midday'', JBool True),
      (''girlSupport'', JBool True)]"

definition example1_user :: obj where
  "example1_user =
     [(''class'', JNum 10), (''location'', JStr ''delhi''), (''type'', JStr ''public''),
      (''maxDistance'', JNum 10), (''fee'', JStr ''free''), (''middayMeal'', JBool True),
      (''girlChild'', JBool True)]"

definition example2_school :: obj where
  "example2_school = [(''classes'', JArr [JStr ''8'', JStr ''9'']), (''distence'', JNum 50)]"

definition example2_user :: obj where
  "example2_user = [(''class'', JNum 10), (''maxDistance'', JNum 5)]"

definition example3_school :: obj where
  "example3_school = [(''fee'', JNum 500)]"

definition example3_user :: obj where
  "example3_user = [(''fee'', JStr ''low'')]"

text \<open>Five schools that score 90, 60, 30, 20 and 10 for one user.\<close>

definition example4_user :: obj where
  "example4_user =
     [(''class'', JNum 10), (''location'', JStr ''delhi''), (''type'', JStr ''public''),
      (''maxDistance'', JNum 10), (''fee'', JStr ''low''), (''middayMeal'', JBool True),
      (''girlChild'', JBool True)]"

definition school_a :: obj where
  "school_a =
     [(''name'', JStr ''A''), (''classes'', JStr ''10''), (''location'', JStr ''Delhi''),
      (''type'', JStr ''Public''), (''distence'', JNum 5)]"

definition school_b :: obj where
  "school_b =
     [(''name'', JStr ''B''), (''classes'', JArr [JStr ''9'', JStr ''10'']), (''fee'', JNum 100),
      (''midday'', JBool True), (''girlSupport'', JBool True)]"

definition school_c :: obj where
  "school_c = [(''name'', JStr ''C''), (''classes'', JNum 10)]"

definition school_d :: obj where
  "school_d = [(''name'', JStr ''D''), (''location'', JStr ''New Delhi'')]"

definition school_e :: obj where
  "school_e = [(''name'', JStr ''E''), (''midday'', JBool True), (''girlSupport'', JBool True)]"

section \<open>Structure of the result\<close>

lemma error_cases: "(x :: error + 'a) \<noteq> Inl TypeError \<Longrightarrow> \<exists>b. x = Inr b"
  by (cases x) (auto intro: error.exhaust)

lemma calculateScore_unfold:
  "calculateScore s u =
     (case class_cond s u of Inl e \<Rightarrow> Inl e | Inr c1 \<Rightarrow>
     (case location_cond s u of Inl e \<Rightarrow> Inl e | Inr c2 \<Rightarrow>
     (case type_cond s u of Inl e \<Rightarrow> Inl e | Inr c3 \<Rightarrow>
     (case distance_cond s u of Inl e \<Rightarrow> Inl e | Inr c4 \<Rightarrow>
        Inr ((if c1 then 30 else 0) + (if c2 then 20 else 0) + (if c3 then 20 else 0)
             + (if c4 then 20 else 0) + (if fee_cond s u then 20 else 0)
             + (if midday_cond s u then 5 else 0) + (if girl_cond s u then 5 else 0))))))"
  by (simp add: calculateScore_def split: sum.splits)

lemma error_is: "(e :: error) = TypeError"
  by (cases e)

lemma calculateScore_raises:
  assumes "condition c s u = Inl TypeError"
  shows "calculateScore s u = Inl TypeError"
  using assms
  by (cases c; cases "class_cond s u"; cases "location_cond s u"; cases "type_cond s u";
      cases "distance_cond s u"; simp add: calculateScore_unfold error_is)

lemma calculateScore_sum:
  assumes "\<forall>c. condition c s u \<noteq> Inl TypeError"
  shows "calculateScore s u = Inr (\<Sum>c\<leftarrow>criteria. points c s u)"
proof -
  from assms have "condition ClassMatch s u \<noteq> Inl TypeError"
    and "condition LocationMatch s u \<noteq> Inl TypeError"
    and "condition TypeMatch s u \<noteq> Inl TypeError"
    and "condition DistanceFit s u \<noteq> Inl TypeError"
    by blast+
  then obtain c1 c2 c3 c4 where
    "class_cond s u = Inr c1" "location_cond s u = Inr c2"
    "type_cond s u = Inr c3" "distance_cond s u = Inr c4"
    by (auto dest!: error_cases)
  then show ?thesis
    by (simp add: calculateScore_unfold criteria_def points_def)
qed

lemma calculateScore_returns_iff:
  "(\<exists>n. calculateScore s u = Inr n) \<longleftrightarrow> (\<forall>c. condition c s u \<noteq> Inl TypeError)"
proof
  assume "\<exists>n. calculateScore s u = Inr n"
  then show "\<forall>c. condition c s u \<noteq> Inl TypeError"
    using calculateScore_raises by fastforce
next
  assume "\<forall>c. condition c s u \<noteq> Inl TypeError"
  then show "\<exists>n. calculateScore s u = Inr n"
    using calculateScore_sum by blast
qed

lemma points_bounds: "0 \<le> points c s u \<and> points c s u \<le> weight c"
  by (cases c) (simp_all add: points_def)

lemma weights_total: "(\<Sum>c\<leftarrow>criteria. weight c) = 120"
  by (simp add: criteria_def)

text \<open>Whenever the call returns, its value lies between 0 and 120.\<close>

lemma calculateScore_range:
  assumes "calculateScore s u = Inr n"
  shows "0 \<le> n \<and> n \<le> 120"
proof -
  from assms have "\<forall>c. condition c s u \<noteq> Inl TypeError"
    using calculateScore_returns_iff by blast
  then have n: "n = (\<Sum>c\<leftarrow>criteria. points c s u)"
    using assms calculateScore_sum by simp
  have "0 \<le> (\<Sum>c\<leftarrow>criteria. points c s u)"
    by (rule sum_list_nonneg) (auto simp: points_bounds)
  moreover have "(\<Sum>c\<leftarrow>criteria. points c s u) \<le> (\<Sum>c\<leftarrow>criteria. weight c)"
    by (rule sum_list_mono) (simp add: points_bounds)
  ultimately show ?thesis
    using n weights_total by simp
qed

lemmas cond_defs =
  class_cond_def location_cond_def type_cond_def distance_cond_def fee_cond_def
  midday_cond_def girl_cond_def get_field_def number_le_def NumberToString_def
  toLowerCase_def lower_char_def

lemma get_set_same: "get_field (set_field x k v) k = v"
  by (simp add: get_field_def set_field_def update_conv')

lemma get_set_other: "k' \<noteq> k \<Longrightarrow> get_field (set_field x k v) k' = get_field x k'"
  by (simp add: get_field_def set_field_def update_conv')

section \<open>Totality\<close>

text \<open>
  Claim C1: for every school record and user profile, also with a field of the wrong
  type such as a numeric location, \<^verbatim>\<open>calculateScore\<close> returns without throwing. The
  code does not: for the school \<^verbatim>\<open>{location: 5}\<close> and the user \<^verbatim>\<open>{location: "delhi"}\<close>
  both locations are truthy, \<^verbatim>\<open>toLowerCase\<close> is looked up on the number, and the call
  ends with a \<^verbatim>\<open>TypeError\<close>. The distance and fee blocks test \<^verbatim>\<open>typeof\<close> first; the
  location and type blocks test truthiness only.
\<close>

theorem numeric_location_raises:
  "calculateScore [(''location'', JNum 5)] [(''location'', JStr ''delhi'')] = Inl TypeError"
  by (simp add: calculateScore_def cond_defs)

text \<open>
  Claim C2: for every school record and user profile, \<^verbatim>\<open>calculateScore\<close> returns an integer
  between 0 and 120. A returned value is in that range (\<open>calculateScore_range\<close>), but the
  call does not return for every pair: for the school \<^verbatim>\<open>{type: 7}\<close> and the user
  \<^verbatim>\<open>{type: "public"}\<close> it raises: the type block, like the location block, calls
  \<^verbatim>\<open>toLowerCase\<close> on any truthy value.
\<close>

theorem numeric_type_raises:
  "calculateScore [(''type'', JNum 7)] [(''type'', JStr ''public'')] = Inl TypeError"
  by (simp add: calculateScore_def cond_defs)

section \<open>All criteria, no criterion\<close>



text \<open>
  When the condition of every criterion evaluates to false, \<^verbatim>\<open>calculateScore\<close> returns 0;
  the pair of Example 2 scores 0.
\<close>

lemma all_conditions_false_score_0:
  "((\<forall>c. condition c school user = Inr False) \<longrightarrow> calculateScore school user = Inr 0)
   \<and> calculateScore example2_school example2_user = Inr 0"
proof
  show "(\<forall>c. condition c school user = Inr False) \<longrightarrow> calculateScore school user = Inr 0"
  proof
    assume none: "\<forall>c. condition c school user = Inr False"
    then have "\<forall>c. condition c school user \<noteq> Inl TypeError" by simp
    then have "calculateScore school user = Inr (\<Sum>c\<leftarrow>criteria. points c school user)"
      by (rule calculateScore_sum)
    also have "(\<Sum>c\<leftarrow>criteria. points c school user) = 0"
      using none by (simp add: points_def)
    finally show "calculateScore school user = Inr 0" .
  qed
  show "calculateScore example2_school example2_user = Inr 0"
    by (simp add: example2_school_def example2_user_def calculateScore_def cond_defs
        digits.simps)
qed

text \<open>
  Claim C5: for every school record and user profile for which no criterion's condition
  holds, \<^verbatim>\<open>calculateScore\<close> returns 0. The code does not: take the pair of Example 2 and
  give the school a numeric location, \<^verbatim>\<open>{classes: ["8","9"], distence: 50, location: 110001}\<close>,
  and the user \<^verbatim>\<open>{class: 10, maxDistance: 5, location: "delhi"}\<close>. No criterion's condition
  is true, yet the call raises a \<^verbatim>\<open>TypeError\<close> in the location block, which calls
  \<^verbatim>\<open>toLowerCase\<close> on the number, and returns nothing.
\<close>

theorem no_criterion_yet_raises:
  "(\<forall>c. condition c
           [(''classes'', JArr [JStr ''8'', JStr ''9'']), (''distence'', JNum 50),
            (''location'', JNum 110001)]
           [(''class'', JNum 10), (''maxDistance'', JNum 5), (''location'', JStr ''delhi'')]
         \<noteq> Inr True)
   \<and> calculateScore
         [(''classes'', JArr [JStr ''8'', JStr ''9'']), (''distence'', JNum 50),
          (''location'', JNum 110001)]
         [(''class'', JNum 10), (''maxDistance'', JNum 5), (''location'', JStr ''delhi'')]
       = Inl TypeError"
proof
  show "\<forall>c. condition c
           [(''classes'', JArr [JStr ''8'', JStr ''9'']), (''distence'', JNum 50),
            (''location'', JNum 110001)]
           [(''class'', JNum 10), (''maxDistance'', JNum 5), (''location'', JStr ''delhi'')]
         \<noteq> Inr True"
  proof
    fix c
    show "condition c
           [(''classes'', JArr [JStr ''8'', JStr ''9'']), (''distence'', JNum 50),
            (''location'', JNum 110001)]
           [(''class'', JNum 10), (''maxDistance'', JNum 5), (''location'', JStr ''delhi'')]
         \<noteq> Inr True"
      by (cases c) (simp_all add: cond_defs digits.simps)
  qed
  show "calculateScore
         [(''classes'', JArr [JStr ''8'', JStr ''9'']), (''distence'', JNum 50),
          (''location'', JNum 110001)]
         [(''class'', JNum 10), (''maxDistance'', JNum 5), (''location'', JStr ''delhi'')]
       = Inl TypeError"
    by (simp add: calculateScore_def cond_defs digits.simps)
qed

section \<open>The fee criterion\<close>

lemma fee_cond_spec: "fee_cond school user = fee_fit_spec school user"
  by (auto simp: fee_cond_def fee_fit_spec_def fee_bound_def split: jsval.splits)

lemma calculateScore_fee_part:
  assumes "calculateScore school user = Inr n"
  shows "n = points FeeFit school user + (\<Sum>c\<leftarrow>remove1 FeeFit criteria. points c school user)"
proof -
  from assms have "\<forall>c. condition c school user \<noteq> Inl TypeError"
    using calculateScore_returns_iff by blast
  then have "calculateScore school user = Inr (\<Sum>c\<leftarrow>criteria. points c school user)"
    by (rule calculateScore_sum)
  with assms show ?thesis
    by (simp add: criteria_def)
qed

text \<open>
  Claim C6: the fee criterion awards exactly 20 points if and only if \<^verbatim>\<open>school.fee\<close> is a
  number and the bound of the user's fee category holds for it, and 0 points otherwise,
  so also for any other or absent \<^verbatim>\<open>user.fee\<close> and for a \<^verbatim>\<open>school.fee\<close> that is not a
  number; these points are the fee block's share of the value returned. The pair of
  Example 3 scores exactly 20.
\<close>

theorem fee_criterion:
  "points FeeFit school user = (if fee_fit_spec school user then 20 else 0)
   \<and> (get_field user ''fee'' \<notin> {JStr ''free'', JStr ''low'', JStr ''medium''}
        \<longrightarrow> points FeeFit school user = 0)
   \<and> ((\<forall>f. get_field school ''fee'' \<noteq> JNum f) \<longrightarrow> points FeeFit school user = 0)
   \<and> (calculateScore school user = Inr n \<longrightarrow>
        n = points FeeFit school user + (\<Sum>c\<leftarrow>remove1 FeeFit criteria. points c school user))
   \<and> calculateScore example3_school example3_user = Inr 20"
proof (intro conjI)
  show awards: "points FeeFit school user = (if fee_fit_spec school user then 20 else 0)"
    by (simp add: points_def fee_cond_spec)
  show "get_field user ''fee'' \<notin> {JStr ''free'', JStr ''low'', JStr ''medium''}
        \<longrightarrow> points FeeFit school user = 0"
    by (simp add: awards fee_fit_spec_def fee_bound_def split: jsval.splits)
  show "(\<forall>f. get_field school ''fee'' \<noteq> JNum f) \<longrightarrow> points FeeFit school user = 0"
    by (simp add: awards fee_fit_spec_def split: jsval.splits)
  show "calculateScore school user = Inr n \<longrightarrow>
        n = points FeeFit school user + (\<Sum>c\<leftarrow>remove1 FeeFit criteria. points c school user)"
    using calculateScore_fee_part by blast
  show "calculateScore example3_school example3_user = Inr 20"
    by (simp add: example3_school_def example3_user_def calculateScore_def cond_defs)
qed

theorem fee_criterion_witness:
  "fee_fit_spec example3_school example3_user
   \<and> points FeeFit example3_school example3_user = 20
   \<and> calculateScore example3_school example3_user = Inr 20
   \<and> get_field [] ''fee'' \<notin> {JStr ''free'', JStr ''low'', JStr ''medium''}
   \<and> points FeeFit example3_school [] = 0
   \<and> (\<forall>f. get_field [(''fee'', JStr ''500'')] ''fee'' \<noteq> JNum f)
   \<and> points FeeFit [(''fee'', JStr ''500'')] example3_user = 0"
proof -
  have spec: "fee_fit_spec example3_school example3_user"
    by (simp add: fee_fit_spec_def fee_bound_def example3_school_def example3_user_def
        get_field_def)
  have absent: "get_field [] ''fee'' \<notin> {JStr ''free'', JStr ''low'', JStr ''medium''}"
    by (simp add: get_field_def)
  have text_fee: "\<forall>f. get_field [(''fee'', JStr ''500'')] ''fee'' \<noteq> JNum f"
    by (simp add: get_field_def)
  from spec fee_criterion [of example3_school example3_user 20]
  have "points FeeFit example3_school example3_user = 20
        \<and> calculateScore example3_school example3_user = Inr 20"
    by simp
  moreover from absent fee_criterion [of example3_school "[]" 0]
  have "points FeeFit example3_school [] = 0"
    by blast
  moreover from text_fee fee_criterion [of "[(''fee'', JStr ''500'')]" example3_user 0]
  have "points FeeFit [(''fee'', JStr ''500'')] example3_user = 0"
    by blast
  ultimately show ?thesis
    using spec absent text_fee by blast
qed

lemma fee_leaves_fields:
  "get_field (set_field user ''fee'' v) ''class'' = get_field user ''class''"
  "get_field (set_field user ''fee'' v) ''location'' = get_field user ''location''"
  "get_field (set_field user ''fee'' v) ''type'' = get_field user ''type''"
  "get_field (set_field user ''fee'' v) ''maxDistance'' = get_field user ''maxDistance''"
  "get_field (set_field user ''fee'' v) ''middayMeal'' = get_field user ''middayMeal''"
  "get_field (set_field user ''fee'' v) ''girlChild'' = get_field user ''girlChild''"
  by (simp_all add: get_set_other)

lemma other_conds_ignore_fee:
  "class_cond school (set_field user ''fee'' v) = class_cond school user"
  "location_cond school (set_field user ''fee'' v) = location_cond school user"
  "type_cond school (set_field user ''fee'' v) = type_cond school user"
  "distance_cond school (set_field user ''fee'' v) = distance_cond school user"
  "midday_cond school (set_field user ''fee'' v) = midday_cond school user"
  "girl_cond school (set_field user ''fee'' v) = girl_cond school user"
  unfolding class_cond_def location_cond_def type_cond_def distance_cond_def
    midday_cond_def girl_cond_def fee_leaves_fields
  by simp_all

lemma other_conditions_ignore_fee:
  "c \<noteq> FeeFit \<Longrightarrow> condition c school (set_field user ''fee'' v) = condition c school user"
  by (cases c) (simp_all add: other_conds_ignore_fee)

lemma no_category_no_points: "points FeeFit school (set_field user ''fee'' JUndefined) = 0"
  by (simp add: points_def fee_cond_def get_set_same split: jsval.splits)

lemma score_with_fee:
  assumes "calculateScore school (set_field user ''fee'' JUndefined) = Inr n0"
  shows "calculateScore school (set_field user ''fee'' v)
           = Inr (n0 + points FeeFit school (set_field user ''fee'' v))"
proof -
  let ?u0 = "set_field user ''fee'' JUndefined" and ?uv = "set_field user ''fee'' v"
  from assms have ok0: "\<forall>c. condition c school ?u0 \<noteq> Inl TypeError"
    using calculateScore_returns_iff by blast
  have same: "condition c school ?uv = condition c school ?u0" if "c \<noteq> FeeFit" for c
    using that by (simp add: other_conditions_ignore_fee)
  have okv: "\<forall>c. condition c school ?uv \<noteq> Inl TypeError"
  proof
    fix c
    show "condition c school ?uv \<noteq> Inl TypeError"
      using same [of c] ok0 by (cases "c = FeeFit") auto
  qed
  have other: "points c school ?uv = points c school ?u0" if "c \<noteq> FeeFit" for c
    using same [OF that] by (simp add: points_def)
  have n0: "n0 = (\<Sum>c\<leftarrow>criteria. points c school ?u0)"
    using calculateScore_sum [OF ok0] assms by simp
  have "(\<Sum>c\<leftarrow>criteria. points c school ?uv)
          = (\<Sum>c\<leftarrow>criteria. points c school ?u0) + points FeeFit school ?uv"
    using no_category_no_points [of school user] by (simp add: criteria_def other)
  with n0 calculateScore_sum [OF okv] show ?thesis
    by simp
qed

text \<open>
  Claim C10: the fee categories are nested upper bounds. For one school, if the fee
  criterion awards its points to a user whose category is \<^verbatim>\<open>"free"\<close>, it awards them to
  a user whose category is \<^verbatim>\<open>"low"\<close> and to one whose category is \<^verbatim>\<open>"medium"\<close>; if it
  awards them for \<^verbatim>\<open>"low"\<close>, it awards them for \<^verbatim>\<open>"medium"\<close>; a school with fee 0
  qualifies under all three. These points are part of the value that \<^verbatim>\<open>calculateScore\<close>
  returns: when it returns \<open>n0\<close> for a user with no fee category, it returns \<open>n0\<close> or
  \<open>n0 + 20\<close> for the same user with the category \<^verbatim>\<open>"free"\<close>, \<^verbatim>\<open>"low"\<close> or \<^verbatim>\<open>"medium"\<close>;
  the 20 for \<^verbatim>\<open>"free"\<close> brings the 20 for \<^verbatim>\<open>"low"\<close>, that one the 20 for \<^verbatim>\<open>"medium"\<close>, and
  for a school with fee 0 all three values are \<open>n0 + 20\<close>.
\<close>

theorem fee_categories_nested:
  assumes "get_field free_user ''fee'' = JStr ''free''"
    and "get_field low_user ''fee'' = JStr ''low''"
    and "get_field medium_user ''fee'' = JStr ''medium''"
  shows "(points FeeFit school free_user = 20 \<longrightarrow> points FeeFit school low_user = 20)
       \<and> (points FeeFit school low_user = 20 \<longrightarrow> points FeeFit school medium_user = 20)
       \<and> (points FeeFit school free_user = 20 \<longrightarrow> points FeeFit school medium_user = 20)
       \<and> (get_field school ''fee'' = JNum 0 \<longrightarrow>
            points FeeFit school free_user = 20 \<and> points FeeFit school low_user = 20
            \<and> points FeeFit school medium_user = 20)
       \<and> (calculateScore school x = Inr n \<longrightarrow>
            n = points FeeFit school x + (\<Sum>c\<leftarrow>remove1 FeeFit criteria. points c school x))
       \<and> (calculateScore school (set_field user ''fee'' JUndefined) = Inr n0 \<longrightarrow>
            (\<exists>nf nl nm.
               calculateScore school (set_field user ''fee'' (JStr ''free'')) = Inr nf
             \<and> calculateScore school (set_field user ''fee'' (JStr ''low'')) = Inr nl
             \<and> calculateScore school (set_field user ''fee'' (JStr ''medium'')) = Inr nm
             \<and> (nf = n0 \<or> nf = n0 + 20) \<and> (nl = n0 \<or> nl = n0 + 20)
             \<and> (nm = n0 \<or> nm = n0 + 20)
             \<and> (nf = n0 + 20 \<longrightarrow> nl = n0 + 20)
             \<and> (nl = n0 + 20 \<longrightarrow> nm = n0 + 20)
             \<and> nf \<le> nl \<and> nl \<le> nm
             \<and> (get_field school ''fee'' = JNum 0 \<longrightarrow>
                  nf = n0 + 20 \<and> nl = n0 + 20 \<and> nm = n0 + 20)))"
proof (intro conjI)
  show "points FeeFit school free_user = 20 \<longrightarrow> points FeeFit school low_user = 20"
    and "points FeeFit school low_user = 20 \<longrightarrow> points FeeFit school medium_user = 20"
    and "points FeeFit school free_user = 20 \<longrightarrow> points FeeFit school medium_user = 20"
    and "get_field school ''fee'' = JNum 0 \<longrightarrow>
            points FeeFit school free_user = 20 \<and> points FeeFit school low_user = 20
            \<and> points FeeFit school medium_user = 20"
    using assms by (auto simp: points_def fee_cond_def split: jsval.splits if_splits)
  show "calculateScore school x = Inr n \<longrightarrow>
          n = points FeeFit school x + (\<Sum>c\<leftarrow>remove1 FeeFit criteria. points c school x)"
    using calculateScore_fee_part by blast
  show "calculateScore school (set_field user ''fee'' JUndefined) = Inr n0 \<longrightarrow>
            (\<exists>nf nl nm.
               calculateScore school (set_field user ''fee'' (JStr ''free'')) = Inr nf
             \<and> calculateScore school (set_field user ''fee'' (JStr ''low'')) = Inr nl
             \<and> calculateScore school (set_field user ''fee'' (JStr ''medium'')) = Inr nm
             \<and> (nf = n0 \<or> nf = n0 + 20) \<and> (nl = n0 \<or> nl = n0 + 20)
             \<and> (nm = n0 \<or> nm = n0 + 20)
             \<and> (nf = n0 + 20 \<longrightarrow> nl = n0 + 20)
             \<and> (nl = n0 + 20 \<longrightarrow> nm = n0 + 20)
             \<and> nf \<le> nl \<and> nl \<le> nm
             \<and> (get_field school ''fee'' = JNum 0 \<longrightarrow>
                  nf = n0 + 20 \<and> nl = n0 + 20 \<and> nm = n0 + 20))"
  proof
    assume base: "calculateScore school (set_field user ''fee'' JUndefined) = Inr n0"
    let ?p = "\<lambda>cat. points FeeFit school (set_field user ''fee'' (JStr cat))"
    have nest: "(?p ''free'' = 0 \<or> ?p ''free'' = 20) \<and> (?p ''low'' = 0 \<or> ?p ''low'' = 20)
        \<and> (?p ''medium'' = 0 \<or> ?p ''medium'' = 20)
        \<and> (?p ''free'' = 20 \<longrightarrow> ?p ''low'' = 20) \<and> (?p ''low'' = 20 \<longrightarrow> ?p ''medium'' = 20)
        \<and> (get_field school ''fee'' = JNum 0 \<longrightarrow>
              ?p ''free'' = 20 \<and> ?p ''low'' = 20 \<and> ?p ''medium'' = 20)"
      by (auto simp: points_def fee_cond_def get_set_same split: jsval.splits if_splits)
    from nest score_with_fee [OF base, of "JStr ''free''"]
      score_with_fee [OF base, of "JStr ''low''"] score_with_fee [OF base, of "JStr ''medium''"]
    show "\<exists>nf nl nm.
               calculateScore school (set_field user ''fee'' (JStr ''free'')) = Inr nf
             \<and> calculateScore school (set_field user ''fee'' (JStr ''low'')) = Inr nl
             \<and> calculateScore school (set_field user ''fee'' (JStr ''medium'')) = Inr nm
             \<and> (nf = n0 \<or> nf = n0 + 20) \<and> (nl = n0 \<or> nl = n0 + 20)
             \<and> (nm = n0 \<or> nm = n0 + 20)
             \<and> (nf = n0 + 20 \<longrightarrow> nl = n0 + 20)
             \<and> (nl = n0 + 20 \<longrightarrow> nm = n0 + 20)
             \<and> nf \<le> nl \<and> nl \<le> nm
             \<and> (get_field school ''fee'' = JNum 0 \<longrightarrow>
                  nf = n0 + 20 \<and> nl = n0 + 20 \<and> nm = n0 + 20)"
      by auto
  qed
qed

theorem fee_categories_nested_witness:
  "get_field [(''fee'', JStr ''free'')] ''fee'' = JStr ''free''
   \<and> get_field [(''fee'', JStr ''low'')] ''fee'' = JStr ''low''
   \<and> get_field [(''fee'', JStr ''medium'')] ''fee'' = JStr ''medium''
   \<and> get_field [(''fee'', JNum 0)] ''fee'' = JNum 0
   \<and> points FeeFit [(''fee'', JNum 0)] [(''fee'', JStr ''free'')] = 20
   \<and> points FeeFit [(''fee'', JNum 0)] [(''fee'', JStr ''low'')] = 20
   \<and> points FeeFit [(''fee'', JNum 0)] [(''fee'', JStr ''medium'')] = 20
   \<and> calculateScore [(''fee'', JNum 0)] (set_field [] ''fee'' JUndefined) = Inr 0
   \<and> calculateScore [(''fee'', JNum 0)] (set_field [] ''fee'' (JStr ''free'')) = Inr 20
   \<and> calculateScore [(''fee'', JNum 0)] (set_field [] ''fee'' (JStr ''low'')) = Inr 20
   \<and> calculateScore [(''fee'', JNum 0)] (set_field [] ''fee'' (JStr ''medium'')) = Inr 20"
proof -
  have f: "get_field [(''fee'', JStr ''free'')] ''fee'' = JStr ''free''"
    and l: "get_field [(''fee'', JStr ''low'')] ''fee'' = JStr ''low''"
    and m: "get_field [(''fee'', JStr ''medium'')] ''fee'' = JStr ''medium''"
    and z: "get_field [(''fee'', JNum 0)] ''fee'' = JNum 0"
    by (simp_all add: get_field_def)
  have base: "calculateScore [(''fee'', JNum 0)] (set_field [] ''fee'' JUndefined) = Inr 0"
    by (simp add: set_field_def calculateScore_def cond_defs)
  from fee_categories_nested [OF f l m, of "[(''fee'', JNum 0)]" "[]" 0 "[]" 0] z base
  have "points FeeFit [(''fee'', JNum 0)] [(''fee'', JStr ''free'')] = 20
   \<and> points FeeFit [(''fee'', JNum 0)] [(''fee'', JStr ''low'')] = 20
   \<and> points FeeFit [(''fee'', JNum 0)] [(''fee'', JStr ''medium'')] = 20
   \<and> calculateScore [(''fee'', JNum 0)] (set_field [] ''fee'' (JStr ''free'')) = Inr 20
   \<and> calculateScore [(''fee'', JNum 0)] (set_field [] ''fee'' (JStr ''low'')) = Inr 20
   \<and> calculateScore [(''fee'', JNum 0)] (set_field [] ''fee'' (JStr ''medium'')) = Inr 20"
    by auto
  with f l m z base show ?thesis
    by blast
qed

section \<open>Presence is truthiness\<close>

lemma includes_empty: "includes_str hay []"
  by (cases hay) simp_all

text \<open>
  Claim C9: a user profile whose \<^verbatim>\<open>location\<close> is the empty string gets no points from the
  location criterion, and one whose \<^verbatim>\<open>type\<close> is the empty string gets none from the type
  criterion, whatever the school record is, although every lowercased string includes
  the lowercased empty string: the guard tests the truthiness of the field.
\<close>

theorem empty_string_is_absent:
  "(get_field user ''location'' = JStr [] \<longrightarrow>
      condition LocationMatch school user = Inr False \<and> points LocationMatch school user = 0)
   \<and> (get_field user ''type'' = JStr [] \<longrightarrow>
      condition TypeMatch school user = Inr False \<and> points TypeMatch school user = 0)
   \<and> includes_str (toLowerCase a) (toLowerCase [])"
  by (simp add: points_def location_cond_def type_cond_def includes_empty toLowerCase_def)

theorem empty_string_is_absent_witness:
  "get_field [(''location'', JStr []), (''type'', JStr [])] ''location'' = JStr []
   \<and> get_field [(''location'', JStr []), (''type'', JStr [])] ''type'' = JStr []
   \<and> points LocationMatch example1_school [(''location'', JStr []), (''type'', JStr [])] = 0
   \<and> points TypeMatch example1_school [(''location'', JStr []), (''type'', JStr [])] = 0
   \<and> includes_str (toLowerCase ''Delhi'') (toLowerCase [])"
proof -
  have l: "get_field [(''location'', JStr []), (''type'', JStr [])] ''location'' = JStr []"
    and t: "get_field [(''location'', JStr []), (''type'', JStr [])] ''type'' = JStr []"
    by (simp_all add: get_field_def)
  from empty_string_is_absent
    [of "[(''location'', JStr []), (''type'', JStr [])]" example1_school "''Delhi''"] l t
  show ?thesis
    by blast
qed

section \<open>Scalar and collection class values\<close>

lemma class_cond_singleton:
  assumes "c \<noteq> JUndefined" and "c \<noteq> JNull" and "\<forall>xs. c \<noteq> JArr xs"
  shows "class_cond (set_field school ''classes'' (JArr [c])) user
       = class_cond (set_field school ''classes'' c) user"
  using assms
  by (cases c) (auto simp: class_cond_def get_set_same split: sum.splits)

lemma other_conds_ignore_classes:
  "location_cond (set_field school ''classes'' v) user = location_cond school user"
  "type_cond (set_field school ''classes'' v) user = type_cond school user"
  "distance_cond (set_field school ''classes'' v) user = distance_cond school user"
  "fee_cond (set_field school ''classes'' v) user = fee_cond school user"
  "midday_cond (set_field school ''classes'' v) user = midday_cond school user"
  "girl_cond (set_field school ''classes'' v) user = girl_cond school user"
  by (simp_all add: location_cond_def type_cond_def distance_cond_def fee_cond_def
      midday_cond_def girl_cond_def get_set_other)

text \<open>
  Claim C7: a scalar \<^verbatim>\<open>classes\<close> value is treated as a one-element collection. For every
  user profile and every class value \<open>c\<close> that is present (neither \<^verbatim>\<open>undefined\<close> nor
  \<^verbatim>\<open>null\<close>) and scalar (not itself an array), the school with \<^verbatim>\<open>classes = c\<close> and the
  otherwise identical school with \<^verbatim>\<open>classes = [c]\<close> get the same result from
  \<^verbatim>\<open>calculateScore\<close>; with \<open>c\<close> the string \<^verbatim>\<open>"10"\<close> both match the numeric
  \<^verbatim>\<open>user.class = 10\<close>, since both sides are compared as strings.
\<close>

theorem scalar_classes_as_singleton:
  assumes "c \<noteq> JUndefined" and "c \<noteq> JNull" and "\<forall>xs. c \<noteq> JArr xs"
  shows "calculateScore (set_field school ''classes'' c) user
           = calculateScore (set_field school ''classes'' (JArr [c])) user
       \<and> condition ClassMatch (set_field school ''classes'' (JStr ''10''))
           (set_field user ''class'' (JNum 10)) = Inr True
       \<and> condition ClassMatch (set_field school ''classes'' (JArr [JStr ''10'']))
           (set_field user ''class'' (JNum 10)) = Inr True"
proof (intro conjI)
  show "calculateScore (set_field school ''classes'' c) user
          = calculateScore (set_field school ''classes'' (JArr [c])) user"
    unfolding calculateScore_unfold other_conds_ignore_classes class_cond_singleton [OF assms]
    by (rule refl)
  show "condition ClassMatch (set_field school ''classes'' (JStr ''10''))
          (set_field user ''class'' (JNum 10)) = Inr True"
    by (simp add: class_cond_def get_set_same NumberToString_def digits.simps)
  show "condition ClassMatch (set_field school ''classes'' (JArr [JStr ''10'']))
          (set_field user ''class'' (JNum 10)) = Inr True"
    by (simp add: class_cond_def get_set_same NumberToString_def digits.simps)
qed

theorem scalar_classes_as_singleton_witness:
  "JNum 10 \<noteq> JUndefined \<and> JNum 10 \<noteq> JNull \<and> (\<forall>xs. JNum 10 \<noteq> JArr xs)
   \<and> calculateScore (set_field example1_school ''classes'' (JNum 10)) example1_user = Inr 120
   \<and> calculateScore (set_field example1_school ''classes'' (JArr [JNum 10])) example1_user
       = Inr 120"
proof -
  have a: "JNum 10 \<noteq> JUndefined" and b: "JNum 10 \<noteq> JNull" and c: "\<forall>xs. JNum 10 \<noteq> JArr xs"
    by simp_all
  have "calculateScore (set_field example1_school ''classes'' (JNum 10)) example1_user = Inr 120"
    by (simp add: example1_school_def example1_user_def set_field_def calculateScore_def
        cond_defs digits.simps)
  with scalar_classes_as_singleton [OF a b c, of example1_school example1_user] a b c
  show ?thesis
    by simp
qed

section \<open>Monotonicity\<close>

text \<open>
  Claim C8: the score is monotonic per criterion. When \<^verbatim>\<open>calculateScore\<close> returns \<open>n\<close> for
  a pair, and the inputs are changed so that one more criterion's condition becomes
  true while the condition of every other criterion keeps its value, the call on the
  changed pair returns too, and its value is not less than \<open>n\<close>: it is \<open>n\<close> plus the
  weight of the criterion that became satisfied.
\<close>

theorem score_monotone:
  assumes "calculateScore school user = Inr n"
    and "condition k school user = Inr False"
    and "condition k school' user' = Inr True"
    and "\<forall>c. c \<noteq> k \<longrightarrow> condition c school' user' = condition c school user"
  shows "\<exists>n'. calculateScore school' user' = Inr n' \<and> n \<le> n' \<and> n' = n + weight k"
proof -
  from assms(1) have ok: "\<forall>c. condition c school user \<noteq> Inl TypeError"
    using calculateScore_returns_iff by blast
  have ok': "\<forall>c. condition c school' user' \<noteq> Inl TypeError"
  proof
    fix c
    show "condition c school' user' \<noteq> Inl TypeError"
      using assms(3,4) ok by (cases "c = k") auto
  qed
  have other: "points c school' user' = points c school user" if "c \<noteq> k" for c
    using that assms(4) by (simp add: points_def)
  have before: "points k school user = 0"
    using assms(2) by (simp add: points_def)
  have after: "points k school' user' = weight k"
    using assms(3) by (simp add: points_def)
  have n: "n = (\<Sum>c\<leftarrow>criteria. points c school user)"
    using calculateScore_sum [OF ok] assms(1) by simp
  have "(\<Sum>c\<leftarrow>criteria. points c school' user')
          = (\<Sum>c\<leftarrow>criteria. points c school user) + weight k"
    using before after other by (cases k) (simp_all add: criteria_def)
  with n calculateScore_sum [OF ok'] have "calculateScore school' user' = Inr (n + weight k)"
    by simp
  moreover have "0 \<le> weight k"
    by (cases k) simp_all
  ultimately show ?thesis
    by simp
qed

theorem score_monotone_witness:
  "calculateScore [] example3_user = Inr 0
   \<and> condition FeeFit [] example3_user = Inr False
   \<and> condition FeeFit example3_school example3_user = Inr True
   \<and> map (\<lambda>c. condition c example3_school example3_user) (remove1 FeeFit criteria)
       = map (\<lambda>c. condition c [] example3_user) (remove1 FeeFit criteria)
   \<and> calculateScore example3_school example3_user = Inr 20"
proof -
  have a: "calculateScore [] example3_user = Inr 0"
    by (simp add: example3_user_def calculateScore_def cond_defs)
  have b: "condition FeeFit [] example3_user = Inr False"
    by (simp add: example3_user_def cond_defs)
  have c: "condition FeeFit example3_school example3_user = Inr True"
    by (simp add: example3_school_def example3_user_def cond_defs)
  have d: "\<forall>c. c \<noteq> FeeFit \<longrightarrow>
             condition c example3_school example3_user = condition c [] example3_user"
  proof
    fix c
    show "c \<noteq> FeeFit \<longrightarrow>
            condition c example3_school example3_user = condition c [] example3_user"
      by (cases c) (simp_all add: example3_school_def example3_user_def cond_defs)
  qed
  have e: "map (\<lambda>c. condition c example3_school example3_user) (remove1 FeeFit criteria)
       = map (\<lambda>c. condition c [] example3_user) (remove1 FeeFit criteria)"
    by (simp add: criteria_def example3_school_def example3_user_def cond_defs)
  from score_monotone [OF a b c d] have "calculateScore example3_school example3_user = Inr 20"
    by simp
  with a b c e show ?thesis
    by blast
qed

section \<open>The recommendation list\<close>

lemma score_all_zip:
  "map (\<lambda>s. calculateScore s user) schools = map Inr ns \<Longrightarrow>
   score_all schools user
     = Inr (map (\<lambda>(s, n). set_field s ''score'' (JNum n)) (zip schools ns))"
proof (induction schools arbitrary: ns)
  case Nil
  then show ?case by simp
next
  case (Cons s ss)
  then obtain n ms where ns: "ns = n # ms"
    by (cases ns) auto
  with Cons.prems have "calculateScore s user = Inr n"
    and "map (\<lambda>s. calculateScore s user) ss = map Inr ms"
    by simp_all
  with Cons.IH [of ms] ns show ?case
    by simp
qed

lemma score_of_set_field: "score_of (set_field s ''score'' (JNum n)) = n"
  by (simp add: score_of_def get_field_def set_field_def update_conv')

lemma sorted_descending: "sorted (rev (map score_of (sort_key (\<lambda>a. - score_of a) xs)))"
proof -
  have "sorted (map (\<lambda>a. - score_of a) (sort_key (\<lambda>a. - score_of a) xs))"
    by (rule sorted_sort_key)
  then show ?thesis
    by (simp add: sorted_map sorted_wrt_rev sorted_wrt_map)
qed

lemma example4_scores:
  "map (\<lambda>s. calculateScore s example4_user) [school_a, school_b, school_c, school_d, school_e]
     = map Inr [90, 60, 30, 20, 10]"
  by (simp add: example4_user_def school_a_def school_b_def school_c_def school_d_def
      school_e_def calculateScore_def cond_defs digits.simps)

text \<open>
  Claim C3: for a list of school records whose scores for the user are \<open>ns\<close>, the route
  returns the records, each with its score, that score at least 30, and returns them in
  descending order of score. Five schools that score 90, 60, 30, 20 and 10 give exactly
  the three that score 90, 60 and 30, in that order, also when the five come in another
  order.
\<close>

theorem recommend_filter_sort:
  "(map (\<lambda>s. calculateScore s user) schools = map Inr ns \<longrightarrow>
      (\<exists>rs. recommend schools user = Inr rs
         \<and> sorted (rev (map score_of rs))
         \<and> mset rs = mset (map (\<lambda>(s, n). set_field s ''score'' (JNum n))
                           (filter (\<lambda>(s, n). 30 \<le> n) (zip schools ns)))))
   \<and> (map (\<lambda>s. calculateScore s user) [a, b, c, d, e] = map Inr [90, 60, 30, 20, 10] \<longrightarrow>
        recommend [a, b, c, d, e] user
          = Inr [set_field a ''score'' (JNum 90), set_field b ''score'' (JNum 60),
                 set_field c ''score'' (JNum 30)]
        \<and> recommend [d, c, a, e, b] user
          = Inr [set_field a ''score'' (JNum 90), set_field b ''score'' (JNum 60),
                 set_field c ''score'' (JNum 30)])"
proof (intro conjI impI)
  assume scores: "map (\<lambda>s. calculateScore s user) schools = map Inr ns"
  let ?scored = "map (\<lambda>(s, n). set_field s ''score'' (JNum n)) (zip schools ns)"
  let ?rs = "sort_key (\<lambda>a. - score_of a) (filter (\<lambda>a. 30 \<le> score_of a) ?scored)"
  have "recommend schools user = Inr ?rs"
    by (simp add: recommend_def score_all_zip [OF scores])
  moreover have "sorted (rev (map score_of ?rs))"
    by (rule sorted_descending)
  moreover have "filter (\<lambda>a. 30 \<le> score_of a) ?scored
      = map (\<lambda>(s, n). set_field s ''score'' (JNum n)) (filter (\<lambda>(s, n). 30 \<le> n) (zip schools ns))"
    by (simp add: filter_map comp_def case_prod_unfold score_of_set_field)
  then have "mset ?rs = mset (map (\<lambda>(s, n). set_field s ''score'' (JNum n))
                               (filter (\<lambda>(s, n). 30 \<le> n) (zip schools ns)))"
    by simp
  ultimately show "\<exists>rs. recommend schools user = Inr rs
         \<and> sorted (rev (map score_of rs))
         \<and> mset rs = mset (map (\<lambda>(s, n). set_field s ''score'' (JNum n))
                           (filter (\<lambda>(s, n). 30 \<le> n) (zip schools ns)))"
    by blast
next
  assume "map (\<lambda>s. calculateScore s user) [a, b, c, d, e] = map Inr [90, 60, 30, 20, 10]"
  then show "recommend [a, b, c, d, e] user
      = Inr [set_field a ''score'' (JNum 90), set_field b ''score'' (JNum 60),
             set_field c ''score'' (JNum 30)]"
    by (simp add: recommend_def score_of_set_field)
next
  assume "map (\<lambda>s. calculateScore s user) [a, b, c, d, e] = map Inr [90, 60, 30, 20, 10]"
  then show "recommend [d, c, a, e, b] user
      = Inr [set_field a ''score'' (JNum 90), set_field b ''score'' (JNum 60),
             set_field c ''score'' (JNum 30)]"
    by (simp add: recommend_def score_of_set_field)
qed

theorem recommend_filter_sort_witness:
  "map (\<lambda>s. calculateScore s example4_user) [school_a, school_b, school_c, school_d, school_e]
     = map Inr [90, 60, 30, 20, 10]
   \<and> recommend [school_a, school_b, school_c, school_d, school_e] example4_user
       = Inr [set_field school_a ''score'' (JNum 90), set_field school_b ''score'' (JNum 60),
              set_field school_c ''score'' (JNum 30)]
   \<and> recommend [school_d, school_c, school_a, school_e, school_b] example4_user
       = Inr [set_field school_a ''score'' (JNum 90), set_field school_b ''score'' (JNum 60),
              set_field school_c ''score'' (JNum 30)]
   \<and> (\<exists>rs. recommend [school_a, school_b, school_c, school_d, school_e] example4_user = Inr rs
         \<and> sorted (rev (map score_of rs)))"
  using example4_scores
    recommend_filter_sort [of example4_user
      "[school_a, school_b, school_c, school_d, school_e]" "[90, 60, 30, 20, 10]"
      school_a school_b school_c school_d school_e]
  by blast

end
